theory Spec2Isabelle
  imports Complex_Main "HOL-Library.AList" "HOL-Library.Sublist"
begin

section \<open>The cryptowatch client: a shallow embedding\<close>

text \<open>
  The package has one function per endpoint of the vendor's REST API and one shared
  routine, \<open>request\<close>, that performs the GET, parses the envelope and classifies the
  HTTP status. The embedding follows the typed variant of the package, the one whose
  \<open>request\<close> returns \<open>[]byte\<close> and whose endpoints decode into the declared structs.
  (The source also carries an untyped variant, whose \<open>request\<close> returns the \<open>result\<close>
  value itself and whose endpoints type-assert it; it shares the route table.)

  What lies outside the package is made explicit:
  \<^item> the network and the clock are a \<open>world\<close>: what \<open>http.Get\<close> answers for a URL and
    what \<open>time.Now().Minute()\<close> reads;
  \<^item> a byte string handed to \<open>encoding/json\<close> is represented by what the parser makes
    of it: \<open>Rejected e\<close> for an input that \<open>json.Unmarshal\<close> rejects with the error \<open>e\<close>
    (a syntax error, or a type error for a number literal beyond the range of
    \<open>float64\<close>), \<open>JSON v\<close> for a text that denotes the value \<open>v\<close>;
  \<^item> a run-time panic is a value of its own, never an error return.
\<close>

subsection \<open>JSON values, errors, panics\<close>

text \<open>
  The value \<open>json.Unmarshal\<close> stores into an \<open>interface{}\<close>: \<open>nil\<close>, \<open>bool\<close>,
  \<open>float64\<close>, \<open>string\<close>, \<open>[]interface{}\<close> or \<open>map[string]interface{}\<close>. A \<open>float64\<close>
  is represented by the rational number it denotes (JSON has neither NaN nor
  infinities). A map is represented by its entries in ascending key order, the order
  in which \<open>json.Marshal\<close> writes them and a decoder then reads them.
\<close>

datatype json =
    JNull
  | JBool bool
  | JNumber rat
  | JString string
  | JArray "json list"
  | JObject "(string \<times> json) list"

datatype error =
    NetError string \<comment> \<open>whatever \<open>http.Get\<close> or \<open>ioutil.ReadAll\<close> reports\<close>
  | SyntaxError \<comment> \<open>\<open>json.Unmarshal\<close> on a text that is not JSON\<close>
  | UnmarshalTypeError \<comment> \<open>a JSON value that does not fit the Go type it is decoded into\<close>
  | ErrorString string \<comment> \<open>\<open>errors.New(message)\<close>\<close>

datatype bytes = Rejected error | JSON json

datatype panic = InterfaceConversion \<comment> \<open>a failed single-value type assertion \<open>x.(T)\<close>\<close>

record response =
  StatusCode :: int
  Body :: "error + bytes" \<comment> \<open>the outcome of \<open>ioutil.ReadAll(resp.Body)\<close>\<close>

record world =
  Get :: "string \<Rightarrow> error + response" \<comment> \<open>\<open>http.Get\<close>\<close>
  Minute :: int \<comment> \<open>\<open>time.Now().Minute()\<close>, in \<open>0..59\<close>\<close>

text \<open>
  What a call did and how it ended: the URLs passed to \<open>http.Get\<close>, in order, and
  either a panic or the returned values.
\<close>

record 'a call =
  gets :: "string list"
  outcome :: "panic + 'a"

subsection \<open>Library functions the package calls\<close>

text \<open>\<open>m[k]\<close> on a \<open>map[string]interface{}\<close>: the \<open>nil\<close> interface when the key is absent.\<close>

definition index :: "(string \<times> json) list \<Rightarrow> string \<Rightarrow> json" where
  "index m k = (case map_of m k of None \<Rightarrow> JNull | Some v \<Rightarrow> v)"

text \<open>\<open>json.Unmarshal(body, &data)\<close> with \<open>data\<close> of type \<open>interface{}\<close>.\<close>

definition Unmarshal_interface :: "bytes \<Rightarrow> error + json" where
  "Unmarshal_interface b = (case b of Rejected err \<Rightarrow> Inl err | JSON v \<Rightarrow> Inr v)"

text \<open>
  \<open>json.Marshal\<close> of a value that came out of \<open>json.Unmarshal\<close>: it cannot fail, and the
  text it writes denotes the same value. It writes a \<open>float64\<close> with the fewest digits
  that read back as the same \<open>float64\<close>; what that means for a decoder that reads the
  literal as an \<open>int\<close> is spelled out with the typed decoder below.
\<close>

definition Marshal :: "json \<Rightarrow> bytes option \<times> error option" where
  "Marshal v = (Some (JSON v), None)"

text \<open>
  The conversion \<open>string(n)\<close> of an integer: the UTF-8 encoding of the code point \<open>n\<close>,
  and of U+FFFD when \<open>n\<close> is not a valid code point.
\<close>

definition byte :: "int \<Rightarrow> char" where
  "byte n = char_of (nat n)"

definition string_of_rune :: "int \<Rightarrow> string" where
  "string_of_rune r =
     (if r < 0 \<or> 1114111 < r \<or> (55296 \<le> r \<and> r \<le> 57343) then [byte 239, byte 191, byte 189]
      else if r < 128 then [byte r]
      else if r < 2048 then [byte (192 + r div 64), byte (128 + r mod 64)]
      else if r < 65536 then
        [byte (224 + r div 4096), byte (128 + (r div 64) mod 64), byte (128 + r mod 64)]
      else
        [byte (240 + r div 262144), byte (128 + (r div 4096) mod 64),
         byte (128 + (r div 64) mod 64), byte (128 + r mod 64)])"

subsection \<open>The response unwrapper\<close>

definition request :: "world \<Rightarrow> string \<Rightarrow> (bytes option \<times> error option) call" where
  "request w url =
     \<lparr>gets = [url],
      outcome =
        (case Get w url of
           Inl err \<Rightarrow> Inr (None, Some err)
         | Inr resp \<Rightarrow>
             (case Body resp of
                Inl err \<Rightarrow> Inr (None, Some err)
              | Inr body \<Rightarrow>
                  (case Unmarshal_interface body of
                     Inl err \<Rightarrow> Inr (None, Some err)
                   | Inr data \<Rightarrow>
                       (case data of
                          JObject results \<Rightarrow>
                            if StatusCode resp = 429 then
                              (let ttr = 60 - Minute w;
                                   message = ''Too Many Requests. Allowance resets in ''
                                     @ string_of_rune ttr @ '' minutes.''
                               in Inr (None, Some (ErrorString message)))
                            else if StatusCode resp \<noteq> 200 then
                              (case index results ''error'' of
                                 JString message \<Rightarrow> Inr (None, Some (ErrorString message))
                               | _ \<Rightarrow> Inl InterfaceConversion)
                            else Inr (Marshal (index results ''result''))
                        | _ \<Rightarrow> Inl InterfaceConversion))))\<rparr>"

subsection \<open>Go values and typed decoding\<close>

text \<open>
  \<open>encoding/json\<close> decodes by reflection on the target's type, so the declared result
  types are described once, as data: a struct is the list of its fields, each under
  the key of its \<open>json\<close> tag. Values follow the types; \<open>VNil\<close> is the \<open>nil\<close> slice and
  the \<open>nil\<close> map. \<open>int\<close> is taken to be 64 bits wide.
\<close>

datatype gotype = TBool | TInt | TFloat64 | TString | TSlice gotype | TMap gotype
  | TStruct "(string \<times> gotype) list"

datatype goval = VBool bool | VInt int | VFloat64 rat | VString string | VNil
  | VSlice "goval list" | VMap "(string \<times> goval) list" | VStruct "(string \<times> goval) list"

fun zero :: "gotype \<Rightarrow> goval"
  and zero_fields :: "(string \<times> gotype) list \<Rightarrow> (string \<times> goval) list" where
  "zero TBool = VBool False"
| "zero TInt = VInt 0"
| "zero TFloat64 = VFloat64 0"
| "zero TString = VString []"
| "zero (TSlice t) = VNil"
| "zero (TMap t) = VNil"
| "zero (TStruct fs) = VStruct (zero_fields fs)"
| "zero_fields [] = []"
| "zero_fields ((name, t) # fs) = (name, zero t) # zero_fields fs"

text \<open>
  How the decoder finds the field for an object key: a field whose name is the key
  wins; otherwise the first field whose name equals the key under case folding. The
  field names of this package are ASCII, for which folding is ASCII case-insensitivity
  plus the two letters that fold onto \<open>s\<close> and \<open>k\<close> (U+017F and U+212A, here in UTF-8).
\<close>

definition lower :: "char \<Rightarrow> char" where
  "lower c = (let n = (of_char c :: nat) in if 65 \<le> n \<and> n \<le> 90 then char_of (n + 32) else c)"

fun equalFold :: "string \<Rightarrow> string \<Rightarrow> bool" where
  "equalFold [] t = (t = [])"
| "equalFold (sb # s) t =
     (case t of
        [] \<Rightarrow> False
      | tb # t' \<Rightarrow>
          if lower tb = lower sb then equalFold s t'
          else if lower sb = CHR ''s'' \<and> take 2 t = [byte 197, byte 191] then equalFold s (drop 2 t)
          else if lower sb = CHR ''k'' \<and> take 3 t = [byte 226, byte 132, byte 170]
            then equalFold s (drop 3 t)
          else False)"

definition find_field :: "(string \<times> gotype) list \<Rightarrow> string \<Rightarrow> (string \<times> gotype) option" where
  "find_field fs key =
     (case find (\<lambda>f. fst f = key) fs of
        Some f \<Rightarrow> Some f
      | None \<Rightarrow> find (\<lambda>f. equalFold (fst f) key) fs)"

text \<open>The decoder keeps the first error it meets and goes on decoding.\<close>

definition first_error :: "error option \<Rightarrow> error option \<Rightarrow> error option" where
  "first_error a b = (case a of None \<Rightarrow> b | Some e \<Rightarrow> Some e)"

fun elems_of :: "goval \<Rightarrow> goval list" where
  "elems_of (VSlice vs) = vs"
| "elems_of _ = []"

fun entries_of :: "goval \<Rightarrow> (string \<times> goval) list" where
  "entries_of (VMap m) = m"
| "entries_of _ = []"

fun members_of :: "goval \<Rightarrow> (string \<times> goval) list" where
  "members_of (VStruct m) = m"
| "members_of _ = []"

definition member :: "(string \<times> goval) list \<Rightarrow> string \<Rightarrow> gotype \<Rightarrow> goval" where
  "member m name t = (case map_of m name of Some v \<Rightarrow> v | None \<Rightarrow> zero t)"

text \<open>
  Decoding a number into an \<open>int\<close> reads the literal that \<open>json.Marshal\<close> wrote for the
  \<open>float64\<close>, and that literal is the shortest decimal that reads back as the same
  \<open>float64\<close>, the nearest to it among the shortest. Up to \<open>2^53\<close> in magnitude an integer
  is written digit for digit. Beyond, neighbouring \<open>float64\<close>s are \<open>ulp\<close> apart, a
  decimal reads as \<open>n\<close> when it lies within half that distance of \<open>n\<close> (a quarter below a
  power of two; the bounds included when the mantissa of \<open>n\<close> is even), and the literal
  is the multiple of the largest power of ten that does: \<open>2^62\<close> is written
  \<open>4611686018427388000\<close> and \<open>2^63\<close> is written \<open>9223372036854776000\<close>.
\<close>

function bit_length :: "int \<Rightarrow> nat" where
  "bit_length n = (if n \<le> 0 then 0 else Suc (bit_length (n div 2)))"
  by pat_completeness auto
termination
  by (relation "measure nat") auto

declare bit_length.simps [simp del]

text \<open>\<open>reads_as n d\<close>: the decimal integer \<open>d\<close> is read as the \<open>float64\<close> \<open>n\<close>, for \<open>n \<ge> 2^53\<close>.\<close>

definition reads_as :: "int \<Rightarrow> int \<Rightarrow> bool" where
  "reads_as n d =
     (let ulp = 2 ^ (bit_length n - 53);
          mantissa = n div ulp;
          lower = 4 * n - (if mantissa = 2 ^ 52 then ulp else 2 * ulp);
          upper = 4 * n + 2 * ulp
      in if even mantissa then lower \<le> 4 * d \<and> 4 * d \<le> upper
         else lower < 4 * d \<and> 4 * d < upper)"

text \<open>
  The nearest multiple of \<open>10^k\<close> that reads as \<open>n\<close>, for the largest \<open>k\<close> at most the one
  given for which there is one.
\<close>

fun shortest :: "int \<Rightarrow> nat \<Rightarrow> int" where
  "shortest n 0 = n"
| "shortest n (Suc k) =
     (let p = 10 ^ Suc k; down = (n div p) * p; up = down + p
      in if reads_as n down then (if reads_as n up \<and> up - n < n - down then up else down)
         else if reads_as n up then up
         else shortest n k)"

text \<open>
  The integer that the literal written for the integer-valued \<open>float64\<close> \<open>n \<ge> 0\<close>
  denotes.
\<close>

definition written :: "int \<Rightarrow> int" where
  "written n = (if n < 2 ^ 53 then n else shortest n 21)"

text \<open>
  What the decoder makes of a number for an \<open>int\<close>: the literal's integer when the
  literal has neither fraction nor exponent (the \<open>float64\<close> is an integer; from \<open>10^21\<close> on
  the literal has an exponent, and is out of range anyway) and lies in the 64-bit
  range, and otherwise nothing.
\<close>

definition int_of_number :: "rat \<Rightarrow> int option" where
  "int_of_number x =
     (if x = of_int \<lfloor>x\<rfloor> then
        (let d = (if x < 0 then - written (- \<lfloor>x\<rfloor>) else written \<lfloor>x\<rfloor>)
         in if - (2 ^ 63) \<le> d \<and> d < 2 ^ 63 then Some d else None)
      else None)"

text \<open>
  Decoding a JSON value into a Go value of the given type, starting from the value the
  target holds. \<open>null\<close> clears a slice or map and leaves everything else alone. A value
  of the wrong kind leaves the target alone and is an \<open>UnmarshalTypeError\<close>; decoding
  then goes on with what follows. An array is decoded element by element over the
  elements the slice already has (its spare capacity is not represented: further
  elements start from zero), a map entry always from zero, a struct field from the
  field's present value; keys that name no field are skipped.
\<close>

fun decode :: "gotype \<Rightarrow> json \<Rightarrow> goval \<Rightarrow> goval \<times> error option"
  and decode_elems :: "gotype \<Rightarrow> json list \<Rightarrow> goval list \<Rightarrow> goval list \<times> error option"
  and decode_entries :: "gotype \<Rightarrow> (string \<times> json) list \<Rightarrow> (string \<times> goval) list
        \<Rightarrow> (string \<times> goval) list \<times> error option"
  and decode_members :: "(string \<times> gotype) list \<Rightarrow> (string \<times> json) list
        \<Rightarrow> (string \<times> goval) list \<Rightarrow> (string \<times> goval) list \<times> error option"
  where
  "decode t JNull cur =
     (case t of TSlice _ \<Rightarrow> (VNil, None) | TMap _ \<Rightarrow> (VNil, None) | _ \<Rightarrow> (cur, None))"
| "decode t (JBool b) cur =
     (case t of TBool \<Rightarrow> (VBool b, None) | _ \<Rightarrow> (cur, Some UnmarshalTypeError))"
| "decode t (JNumber x) cur =
     (case t of
        TFloat64 \<Rightarrow> (VFloat64 x, None)
      | TInt \<Rightarrow>
          (case int_of_number x of
             Some i \<Rightarrow> (VInt i, None)
           | None \<Rightarrow> (cur, Some UnmarshalTypeError))
      | _ \<Rightarrow> (cur, Some UnmarshalTypeError))"
| "decode t (JString s) cur =
     (case t of TString \<Rightarrow> (VString s, None) | _ \<Rightarrow> (cur, Some UnmarshalTypeError))"
| "decode t (JArray js) cur =
     (case t of
        TSlice e \<Rightarrow> (let (vs, err) = decode_elems e js (elems_of cur) in (VSlice vs, err))
      | _ \<Rightarrow> (cur, Some UnmarshalTypeError))"
| "decode t (JObject kvs) cur =
     (case t of
        TMap e \<Rightarrow> (let (m, err) = decode_entries e kvs (entries_of cur) in (VMap m, err))
      | TStruct fs \<Rightarrow> (let (m, err) = decode_members fs kvs (members_of cur) in (VStruct m, err))
      | _ \<Rightarrow> (cur, Some UnmarshalTypeError))"
| "decode_elems e [] cur = ([], None)"
| "decode_elems e (j # js) cur =
     (let (v, err) = decode e j (case cur of [] \<Rightarrow> zero e | c # _ \<Rightarrow> c);
          (vs, err') = decode_elems e js (tl cur)
      in (v # vs, first_error err err'))"
| "decode_entries e [] m = (m, None)"
| "decode_entries e ((k, j) # kvs) m =
     (let (v, err) = decode e j (zero e);
          (m', err') = decode_entries e kvs (AList.update k v m)
      in (m', first_error err err'))"
| "decode_members fs [] m = (m, None)"
| "decode_members fs ((k, j) # kvs) m =
     (case find_field fs k of
        None \<Rightarrow> decode_members fs kvs m
      | Some (name, t) \<Rightarrow>
          (let (v, err) = decode t j (member m name t);
               (m', err') = decode_members fs kvs (AList.update name v m)
           in (m', first_error err err')))"

text \<open>
  \<open>json.Unmarshal(res, &x)\<close> with \<open>x\<close> of the given type, holding \<open>cur\<close>. The package
  only ever passes it what \<open>json.Marshal\<close> wrote.
\<close>

definition Unmarshal :: "bytes \<Rightarrow> gotype \<Rightarrow> goval \<Rightarrow> goval \<times> error option" where
  "Unmarshal b t cur = (case b of Rejected err \<Rightarrow> (cur, Some err) | JSON j \<Rightarrow> decode t j cur)"

text \<open>\<open>m[k]\<close> on a typed map: the zero value of the element type when the key is absent.\<close>

definition map_index :: "goval \<Rightarrow> string \<Rightarrow> gotype \<Rightarrow> goval" where
  "map_index m k t = (case map_of (entries_of m) k of Some v \<Rightarrow> v | None \<Rightarrow> zero t)"

subsection \<open>The declared result types\<close>

definition AssetMarket :: gotype where
  "AssetMarket = TStruct [(''exchange'', TString), (''pair'', TString), (''active'', TBool),
     (''route'', TString)]"

definition PairData :: gotype where
  "PairData = TStruct [(''symbol'', TString), (''name'', TString), (''isFiat'', TBool),
     (''route'', TString)]"

definition Asset :: gotype where
  "Asset = TStruct [(''symbol'', TString), (''name'', TString), (''fiat'', TBool),
     (''route'', TString)]"

definition DetailedAsset :: gotype where
  "DetailedAsset = TStruct [(''id'', TInt), (''symbol'', TString), (''name'', TString),
     (''fiat'', TBool),
     (''markets'', TStruct [(''base'', TSlice AssetMarket), (''quote'', TSlice AssetMarket)])]"

definition Pair :: gotype where
  "Pair = TStruct [(''symbol'', TString), (''id'', TInt), (''base'', PairData),
     (''quote'', PairData), (''route'', TString)]"

definition PairMarket :: gotype where
  "PairMarket = TStruct [(''symbol'', TString), (''id'', TInt), (''base'', PairData),
     (''quote'', PairData), (''route'', TString), (''markets'', TSlice AssetMarket)]"

definition GeneralExchange :: gotype where
  "GeneralExchange = TStruct [(''symbol'', TString), (''name'', TString), (''active'', TBool),
     (''route'', TString)]"

definition DetailedExchange :: gotype where
  "DetailedExchange = TStruct [(''id'', TInt), (''name'', TString), (''active'', TBool),
     (''routes'', TStruct [(''markets'', TString)])]"

definition GeneralMarket :: gotype where
  "GeneralMarket = TStruct [(''exchange'', TString), (''pair'', TString), (''active'', TBool),
     (''route'', TString)]"

definition DetailedMarket :: gotype where
  "DetailedMarket = TStruct [(''exchange'', TString), (''pair'', TString), (''active'', TBool),
     (''routes'', TStruct [(''price'', TString), (''summary'', TString),
        (''orderbook'', TString), (''trades'', TString), (''ohlc'', TString)])]"

definition Summary :: gotype where
  "Summary = TStruct [(''price'', TStruct [(''last'', TFloat64), (''high'', TFloat64),
        (''low'', TFloat64),
        (''change'', TStruct [(''percentage'', TFloat64), (''absolute'', TFloat64)])]),
     (''volume'', TFloat64)]"

definition Trade :: gotype where
  "Trade = TSlice TFloat64"

definition MarketOrderBook :: gotype where
  "MarketOrderBook = TStruct [(''asks'', TSlice (TSlice TFloat64)),
     (''bids'', TSlice (TSlice TFloat64))]"

definition OHLC :: gotype where
  "OHLC = TMap (TSlice (TSlice TFloat64))"

definition AggregratePrice :: gotype where
  "AggregratePrice = TMap TFloat64"

definition AggregrateSummary :: gotype where
  "AggregrateSummary = TMap Summary"

subsection \<open>The route table and URL formatting\<close>

definition base :: string where
  "base = ''https://api.cryptowat.ch/''"

definition indexes :: "(string \<times> string) list" where
  "indexes =
     [(''Assets'', base @ ''assets''),
      (''Asset'', base @ ''assets/%v''),
      (''Pairs'', base @ ''pairs''),
      (''Pair'', base @ ''pairs/%v''),
      (''Exchanges'', base @ ''exchanges''),
      (''Exchange'', base @ ''exchanges/%v''),
      (''Markets'', base @ ''markets''),
      (''Market'', base @ ''markets/%v/%v''),
      (''MarketPrice'', base @ ''markets/%v/%v/price''),
      (''MarketSummary'', base @ ''markets/%v/%v/summary''),
      (''MarketTrades'', base @ ''markets/%v/%v/trades''),
      (''MarketOrderBook'', base @ ''markets/%v/%v/orderbook''),
      (''MarketOHLC'', base @ ''markets/%v/%v/ohlc''),
      (''AggregratePrices'', base @ ''markets/prices''),
      (''AggregrateSummaries'', base @ ''markets/summaries'')]"

text \<open>\<open>indexes[k]\<close>: the empty string when the key is absent.\<close>

definition indexes_at :: "string \<Rightarrow> string" where
  "indexes_at k = (case map_of indexes k of Some v \<Rightarrow> v | None \<Rightarrow> [])"

text \<open>
  The fragment of \<open>fmt.Sprintf\<close> that the route table uses: the verb \<open>%v\<close> applied to
  string operands, which are copied as they are. A verb without operand prints
  \<open>%!v(MISSING)\<close>, operands left over print \<open>%!(EXTRA ...)\<close>. No other verb occurs in the
  table; a \<open>%\<close> that is not followed by \<open>v\<close> is outside the fragment and is copied.
\<close>

fun join_extra :: "string list \<Rightarrow> string" where
  "join_extra [] = []"
| "join_extra [a] = ''string='' @ a"
| "join_extra (a # b # rest) = ''string='' @ a @ '', '' @ join_extra (b # rest)"

definition extra :: "string list \<Rightarrow> string" where
  "extra args = (if args = [] then [] else ''%!(EXTRA '' @ join_extra args @ '')'')"

fun Sprintf :: "string \<Rightarrow> string list \<Rightarrow> string" where
  "Sprintf [] args = extra args"
| "Sprintf [c] args = c # extra args"
| "Sprintf (c # d # fmt) args =
     (if c = CHR ''%'' \<and> d = CHR ''v'' then
        (case args of
           [] \<Rightarrow> ''%!v(MISSING)'' @ Sprintf fmt []
         | a # rest \<Rightarrow> a @ Sprintf fmt rest)
      else c # Sprintf (d # fmt) args)"

subsection \<open>The endpoint functions\<close>

text \<open>
  Every endpoint calls \<open>request\<close> once and then runs the rest of its body on what
  \<open>request\<close> returned; a panic inside \<open>request\<close> ends the endpoint too.
\<close>

definition and_then :: "'a call \<Rightarrow> ('a \<Rightarrow> 'b) \<Rightarrow> 'b call" where
  "and_then r f =
     \<lparr>gets = gets r, outcome = (case outcome r of Inl p \<Rightarrow> Inl p | Inr x \<Rightarrow> Inr (f x))\<rparr>"

definition Assets :: "world \<Rightarrow> (goval \<times> error option) call" where
  "Assets w =
     (let assets = zero (TSlice Asset)
      in and_then (request w (indexes_at ''Assets'')) (\<lambda>(res, err).
           case res of
             Some b \<Rightarrow> (fst (Unmarshal b (TSlice Asset) assets), err)
           | None \<Rightarrow> (assets, err)))"

definition AssetMarkets :: "world \<Rightarrow> string \<Rightarrow> (goval \<times> error option) call" where
  "AssetMarkets w asset =
     (let markets = zero DetailedAsset;
          url = Sprintf (indexes_at ''Asset'') [asset]
      in and_then (request w url) (\<lambda>(res, err).
           case res of
             Some b \<Rightarrow> Unmarshal b DetailedAsset markets
           | None \<Rightarrow> (markets, err)))"

definition Pairs :: "world \<Rightarrow> (goval \<times> error option) call" where
  "Pairs w =
     (let pairs = zero (TSlice Pair)
      in and_then (request w (indexes_at ''Pairs'')) (\<lambda>(res, err).
           case res of
             Some b \<Rightarrow> Unmarshal b (TSlice Pair) pairs
           | None \<Rightarrow> (pairs, err)))"

definition PairMarkets :: "world \<Rightarrow> string \<Rightarrow> (goval \<times> error option) call" where
  "PairMarkets w pair =
     (let markets = zero PairMarket;
          url = Sprintf (indexes_at ''Pair'') [pair]
      in and_then (request w url) (\<lambda>(res, err).
           case res of
             Some b \<Rightarrow> Unmarshal b PairMarket markets
           | None \<Rightarrow> (markets, err)))"

definition Exchanges :: "world \<Rightarrow> (goval \<times> error option) call" where
  "Exchanges w =
     (let exchanges = zero (TSlice GeneralExchange)
      in and_then (request w (indexes_at ''Exchanges'')) (\<lambda>(res, err).
           case res of
             Some b \<Rightarrow> Unmarshal b (TSlice GeneralExchange) exchanges
           | None \<Rightarrow> (exchanges, err)))"

definition Exchange :: "world \<Rightarrow> string \<Rightarrow> (goval \<times> error option) call" where
  "Exchange w name =
     (let exchange = zero DetailedExchange;
          url = Sprintf (indexes_at ''Exchange'') [name]
      in and_then (request w url) (\<lambda>(res, err).
           case res of
             Some b \<Rightarrow> Unmarshal b DetailedExchange exchange
           | None \<Rightarrow> (exchange, err)))"

definition Markets :: "world \<Rightarrow> (goval \<times> error option) call" where
  "Markets w =
     (let markets = zero (TSlice GeneralMarket)
      in and_then (request w (indexes_at ''Markets'')) (\<lambda>(res, err).
           case res of
             Some b \<Rightarrow> Unmarshal b (TSlice GeneralMarket) markets
           | None \<Rightarrow> (markets, err)))"

definition Market :: "world \<Rightarrow> string \<Rightarrow> string \<Rightarrow> (goval \<times> error option) call" where
  "Market w exchange pair =
     (let market = zero DetailedMarket;
          url = Sprintf (indexes_at ''Market'') [exchange, pair]
      in and_then (request w url) (\<lambda>(res, err).
           case res of
             Some b \<Rightarrow> Unmarshal b DetailedMarket market
           | None \<Rightarrow> (market, err)))"

definition MarketPrice :: "world \<Rightarrow> string \<Rightarrow> string \<Rightarrow> (goval \<times> error option) call" where
  "MarketPrice w exchange pair =
     (let price = zero TFloat64;
          url = Sprintf (indexes_at ''MarketPrice'') [exchange, pair]
      in and_then (request w url) (\<lambda>(res, err).
           case res of
             Some b \<Rightarrow>
               (let (resp, err) = Unmarshal b (TMap TFloat64) (zero (TMap TFloat64))
                in if err = None then (map_index resp ''price'' TFloat64, err) else (price, err))
           | None \<Rightarrow> (price, err)))"

definition MarketSummary :: "world \<Rightarrow> string \<Rightarrow> string \<Rightarrow> (goval \<times> error option) call" where
  "MarketSummary w exchange pair =
     (let summary = zero Summary;
          url = Sprintf (indexes_at ''MarketSummary'') [exchange, pair]
      in and_then (request w url) (\<lambda>(res, err).
           case res of
             Some b \<Rightarrow> Unmarshal b Summary summary
           | None \<Rightarrow> (summary, err)))"

definition Trades :: "world \<Rightarrow> string \<Rightarrow> string \<Rightarrow> (goval \<times> error option) call" where
  "Trades w exchange pair =
     (let trades = zero (TSlice Trade);
          url = Sprintf (indexes_at ''MarketTrades'') [exchange, pair]
      in and_then (request w url) (\<lambda>(res, err).
           case res of
             Some b \<Rightarrow> Unmarshal b (TSlice Trade) trades
           | None \<Rightarrow> (trades, err)))"

definition OrderBook :: "world \<Rightarrow> string \<Rightarrow> string \<Rightarrow> (goval \<times> error option) call" where
  "OrderBook w exchange pair =
     (let orderbook = zero MarketOrderBook;
          url = Sprintf (indexes_at ''MarketOrderBook'') [exchange, pair]
      in and_then (request w url) (\<lambda>(res, err).
           case res of
             Some b \<Rightarrow> Unmarshal b MarketOrderBook orderbook
           | None \<Rightarrow> (orderbook, err)))"

definition Ohlc :: "world \<Rightarrow> string \<Rightarrow> string \<Rightarrow> (goval \<times> error option) call" where
  "Ohlc w exchange pair =
     (let ohlc = zero OHLC;
          url = Sprintf (indexes_at ''MarketOHLC'') [exchange, pair]
      in and_then (request w url) (\<lambda>(res, err).
           case res of
             Some b \<Rightarrow> Unmarshal b OHLC ohlc
           | None \<Rightarrow> (ohlc, err)))"

definition AggregratePrices :: "world \<Rightarrow> (goval \<times> error option) call" where
  "AggregratePrices w =
     (let prices = zero AggregratePrice
      in and_then (request w (indexes_at ''AggregratePrices'')) (\<lambda>(res, err).
           case res of
             Some b \<Rightarrow> Unmarshal b AggregratePrice prices
           | None \<Rightarrow> (prices, err)))"

definition AggregrateSummaries :: "world \<Rightarrow> (goval \<times> error option) call" where
  "AggregrateSummaries w =
     (let summaries = zero AggregrateSummary
      in and_then (request w (indexes_at ''AggregrateSummaries'')) (\<lambda>(res, err).
           case res of
             Some b \<Rightarrow> Unmarshal b AggregrateSummary summaries
           | None \<Rightarrow> (summaries, err)))"

subsection \<open>Speaking of every endpoint, and of the specification's words\<close>

text \<open>
  The fifteen exported functions with their arguments, so that a statement can range
  over all of them; \<open>invoke\<close> calls the function named, \<open>return_type\<close> is the type it
  declares.
\<close>

datatype endpoint =
    EAssets
  | EAssetMarkets string
  | EPairs
  | EPairMarkets string
  | EExchanges
  | EExchange string
  | EMarkets
  | EMarket string string
  | EMarketPrice string string
  | EMarketSummary string string
  | ETrades string string
  | EOrderBook string string
  | EOhlc string string
  | EAggregratePrices
  | EAggregrateSummaries

fun invoke :: "world \<Rightarrow> endpoint \<Rightarrow> (goval \<times> error option) call" where
  "invoke w EAssets = Assets w"
| "invoke w (EAssetMarkets asset) = AssetMarkets w asset"
| "invoke w EPairs = Pairs w"
| "invoke w (EPairMarkets pair) = PairMarkets w pair"
| "invoke w EExchanges = Exchanges w"
| "invoke w (EExchange name) = Exchange w name"
| "invoke w EMarkets = Markets w"
| "invoke w (EMarket exchange pair) = Market w exchange pair"
| "invoke w (EMarketPrice exchange pair) = MarketPrice w exchange pair"
| "invoke w (EMarketSummary exchange pair) = MarketSummary w exchange pair"
| "invoke w (ETrades exchange pair) = Trades w exchange pair"
| "invoke w (EOrderBook exchange pair) = OrderBook w exchange pair"
| "invoke w (EOhlc exchange pair) = Ohlc w exchange pair"
| "invoke w EAggregratePrices = AggregratePrices w"
| "invoke w EAggregrateSummaries = AggregrateSummaries w"

fun return_type :: "endpoint \<Rightarrow> gotype" where
  "return_type EAssets = TSlice Asset"
| "return_type (EAssetMarkets asset) = DetailedAsset"
| "return_type EPairs = TSlice Pair"
| "return_type (EPairMarkets pair) = PairMarket"
| "return_type EExchanges = TSlice GeneralExchange"
| "return_type (EExchange name) = DetailedExchange"
| "return_type EMarkets = TSlice GeneralMarket"
| "return_type (EMarket exchange pair) = DetailedMarket"
| "return_type (EMarketPrice exchange pair) = TFloat64"
| "return_type (EMarketSummary exchange pair) = Summary"
| "return_type (ETrades exchange pair) = TSlice Trade"
| "return_type (EOrderBook exchange pair) = MarketOrderBook"
| "return_type (EOhlc exchange pair) = OHLC"
| "return_type EAggregratePrices = AggregratePrice"
| "return_type EAggregrateSummaries = AggregrateSummary"

text \<open>
  The path templates as the specification lists them, with the placeholders filled by
  the arguments in order. This definition follows the specification, not the code; it
  is what the URLs the code builds are compared with.
\<close>

fun spec_path :: "endpoint \<Rightarrow> string" where
  "spec_path EAssets = ''assets''"
| "spec_path (EAssetMarkets asset) = ''assets/'' @ asset"
| "spec_path EPairs = ''pairs''"
| "spec_path (EPairMarkets pair) = ''pairs/'' @ pair"
| "spec_path EExchanges = ''exchanges''"
| "spec_path (EExchange exchange) = ''exchanges/'' @ exchange"
| "spec_path EMarkets = ''markets''"
| "spec_path (EMarket exchange pair) = ''markets/'' @ exchange @ ''/'' @ pair"
| "spec_path (EMarketPrice exchange pair) = ''markets/'' @ exchange @ ''/'' @ pair @ ''/price''"
| "spec_path (EMarketSummary exchange pair) =
     ''markets/'' @ exchange @ ''/'' @ pair @ ''/summary''"
| "spec_path (ETrades exchange pair) = ''markets/'' @ exchange @ ''/'' @ pair @ ''/trades''"
| "spec_path (EOrderBook exchange pair) =
     ''markets/'' @ exchange @ ''/'' @ pair @ ''/orderbook''"
| "spec_path (EOhlc exchange pair) = ''markets/'' @ exchange @ ''/'' @ pair @ ''/ohlc''"
| "spec_path EAggregratePrices = ''markets/prices''"
| "spec_path EAggregrateSummaries = ''markets/summaries''"

text \<open>
  The decimal rendering of an integer, as the specification means it when it says that
  a message states a number. It follows the specification, not the code.
\<close>

fun decimal :: "nat \<Rightarrow> string" where
  "decimal n =
     (if n < 10 then [char_of (48 + n)] else decimal (n div 10) @ [char_of (48 + n mod 10)])"

declare decimal.simps [simp del]

definition spec_decimal :: "int \<Rightarrow> string" where
  "spec_decimal i = (if i < 0 then CHR ''-'' # decimal (nat (- i)) else decimal (nat i))"

text \<open>
  A world for stating concrete cases: every GET is answered with the given status
  and body, and the clock reads the given minute.
\<close>

definition answering :: "int \<Rightarrow> bytes \<Rightarrow> int \<Rightarrow> world" where
  "answering status body minute =
     \<lparr>Get = (\<lambda>url. Inr \<lparr>StatusCode = status, Body = Inr body\<rparr>), Minute = minute\<rparr>"

section \<open>Properties\<close>

subsection \<open>Auxiliary facts\<close>

lemma request_gets: "gets (request w url) = [url]"
  by (simp add: request_def)

lemma and_then_gets: "gets (and_then r f) = gets r"
  by (simp add: and_then_def)

lemma and_then_outcome:
  "outcome (and_then r f) = (case outcome r of Inl p \<Rightarrow> Inl p | Inr x \<Rightarrow> Inr (f x))"
  by (simp add: and_then_def)

text \<open>\<open>request\<close> returns either no bytes and an error, or bytes and no error.\<close>

lemma request_returns:
  assumes "outcome (request w url) = Inr (res, err)"
  shows "(res = None \<and> err \<noteq> None) \<or> (\<exists>j. res = Some (JSON j) \<and> err = None)"
  using assms
  by (auto simp: request_def Unmarshal_interface_def Marshal_def Let_def
      split: sum.splits bytes.splits json.splits if_splits)

text \<open>The URL each endpoint formats.\<close>

lemma url_plain:
  "indexes_at ''Assets'' = base @ ''assets''"
  "indexes_at ''Pairs'' = base @ ''pairs''"
  "indexes_at ''Exchanges'' = base @ ''exchanges''"
  "indexes_at ''Markets'' = base @ ''markets''"
  "indexes_at ''AggregratePrices'' = base @ ''markets/prices''"
  "indexes_at ''AggregrateSummaries'' = base @ ''markets/summaries''"
  by (simp_all add: indexes_at_def indexes_def)

lemma url_Asset: "Sprintf (indexes_at ''Asset'') [a] = base @ ''assets/'' @ a"
  by (simp add: indexes_at_def indexes_def base_def extra_def)

lemma url_Pair: "Sprintf (indexes_at ''Pair'') [a] = base @ ''pairs/'' @ a"
  by (simp add: indexes_at_def indexes_def base_def extra_def)

lemma url_Exchange: "Sprintf (indexes_at ''Exchange'') [a] = base @ ''exchanges/'' @ a"
  by (simp add: indexes_at_def indexes_def base_def extra_def)

lemma url_Market: "Sprintf (indexes_at ''Market'') [a, b] = base @ ''markets/'' @ a @ ''/'' @ b"
  by (simp add: indexes_at_def indexes_def base_def extra_def)

lemma url_MarketPrice:
  "Sprintf (indexes_at ''MarketPrice'') [a, b] = base @ ''markets/'' @ a @ ''/'' @ b @ ''/price''"
  by (simp add: indexes_at_def indexes_def base_def extra_def)

lemma url_MarketSummary:
  "Sprintf (indexes_at ''MarketSummary'') [a, b] =
     base @ ''markets/'' @ a @ ''/'' @ b @ ''/summary''"
  by (simp add: indexes_at_def indexes_def base_def extra_def)

lemma url_MarketTrades:
  "Sprintf (indexes_at ''MarketTrades'') [a, b] = base @ ''markets/'' @ a @ ''/'' @ b @ ''/trades''"
  by (simp add: indexes_at_def indexes_def base_def extra_def)

lemma url_MarketOrderBook:
  "Sprintf (indexes_at ''MarketOrderBook'') [a, b] =
     base @ ''markets/'' @ a @ ''/'' @ b @ ''/orderbook''"
  by (simp add: indexes_at_def indexes_def base_def extra_def)

lemma url_MarketOHLC:
  "Sprintf (indexes_at ''MarketOHLC'') [a, b] = base @ ''markets/'' @ a @ ''/'' @ b @ ''/ohlc''"
  by (simp add: indexes_at_def indexes_def base_def extra_def)

lemmas urls = url_plain url_Asset url_Pair url_Exchange url_Market url_MarketPrice
  url_MarketSummary url_MarketTrades url_MarketOrderBook url_MarketOHLC

lemmas endpoint_defs = Assets_def AssetMarkets_def Pairs_def PairMarkets_def Exchanges_def
  Exchange_def Markets_def Market_def MarketPrice_def MarketSummary_def Trades_def
  OrderBook_def Ohlc_def AggregratePrices_def AggregrateSummaries_def

lemma invoke_gets: "gets (invoke w c) = [base @ spec_path c]"
  by (cases c) (simp_all add: endpoint_defs Let_def and_then_gets request_gets urls)

text \<open>The only error the typed decoder reports for a well-formed text is a type error.\<close>

lemma first_error_cases:
  "\<lbrakk>first_error a b = Some e; a = Some e \<Longrightarrow> P; b = Some e \<Longrightarrow> P\<rbrakk> \<Longrightarrow> P"
  by (auto simp: first_error_def split: option.splits)

lemma decode_error_kind:
  "decode t j cur = (v, Some e) \<Longrightarrow> e = UnmarshalTypeError"
  "decode_elems t js curs = (vs, Some e) \<Longrightarrow> e = UnmarshalTypeError"
  "decode_entries t kvs m = (m', Some e) \<Longrightarrow> e = UnmarshalTypeError"
  "decode_members fs kvs m = (m', Some e) \<Longrightarrow> e = UnmarshalTypeError"
proof (induction t j cur and t js curs and t kvs m and fs kvs m
    arbitrary: v and vs and m' and m'
    rule: decode_decode_elems_decode_entries_decode_members.induct)
  case (1 t cur)
  then show ?case by (auto split: gotype.splits)
next
  case (2 t b cur)
  then show ?case by (auto split: gotype.splits)
next
  case (3 t x cur)
  then show ?case by (auto split: gotype.splits option.splits)
next
  case (4 t s cur)
  then show ?case by (auto split: gotype.splits)
next
  case (5 t js cur)
  then show ?case by (auto split: gotype.splits prod.splits)
next
  case (6 t kvs cur)
  then show ?case by (auto split: gotype.splits prod.splits)
next
  case (7 e cur)
  then show ?case by simp
next
  case (8 e j js cur)
  then show ?case by (auto split: prod.splits elim: first_error_cases)
next
  case (9 e m)
  then show ?case by simp
next
  case (10 e k j kvs m)
  then show ?case by (auto split: prod.splits elim: first_error_cases)
next
  case (11 fs m)
  then show ?case by simp
next
  case (12 fs k j kvs m)
  then show ?case by (auto split: prod.splits option.splits elim: first_error_cases)
qed

text \<open>
  Decoding an object whose values are all numbers into a \<open>map[string]float64\<close> reports
  no error and leaves every key the object does not have as it was.
\<close>

lemma decode_entries_numbers:
  assumes "\<forall>kv \<in> set kvs. \<exists>x. snd kv = JNumber x"
  shows "\<exists>m'. decode_entries TFloat64 kvs m = (m', None)
           \<and> (\<forall>k. k \<notin> fst ` set kvs \<longrightarrow> map_of m' k = map_of m k)"
  using assms
proof (induction kvs arbitrary: m)
  case Nil
  then show ?case by simp
next
  case (Cons kv kvs)
  obtain k j where kv: "kv = (k, j)" by (cases kv)
  from Cons.prems kv obtain x where j: "j = JNumber x" by auto
  from Cons.prems have "\<forall>kv \<in> set kvs. \<exists>x. snd kv = JNumber x" by simp
  from Cons.IH [OF this, of "AList.update k (VFloat64 x) m"]
  obtain m' where m': "decode_entries TFloat64 kvs (AList.update k (VFloat64 x) m) = (m', None)"
    and keep: "\<forall>k'. k' \<notin> fst ` set kvs
      \<longrightarrow> map_of m' k' = map_of (AList.update k (VFloat64 x) m) k'"
    by blast
  show ?case
    using m' keep by (auto simp: kv j first_error_def update_conv')
qed

text \<open>
  An endpoint that assigns the decoder's error and returns: an error together with a
  result other than the initial one can only come from the decoder.
\<close>

lemma fetch_into_error:
  assumes "outcome (and_then (request w url)
      (\<lambda>(res, err). case res of Some b \<Rightarrow> Unmarshal b T z | None \<Rightarrow> (z, err))) = Inr (v, Some e)"
    and "v \<noteq> z"
  shows "(\<exists>j. outcome (request w url) = Inr (Some (JSON j), None)
            \<and> Unmarshal (JSON j) T z = (v, Some e))
         \<and> e = UnmarshalTypeError"
proof -
  from assms(1) obtain res err where r: "outcome (request w url) = Inr (res, err)"
    and y: "(case res of Some b \<Rightarrow> Unmarshal b T z | None \<Rightarrow> (z, err)) = (v, Some e)"
    by (auto simp: and_then_outcome split: sum.splits)
  from request_returns [OF r] show ?thesis
  proof
    assume "res = None \<and> err \<noteq> None"
    with y assms(2) show ?thesis by simp
  next
    assume "\<exists>j. res = Some (JSON j) \<and> err = None"
    then obtain j where j: "res = Some (JSON j)" "err = None" by blast
    with y have u: "Unmarshal (JSON j) T z = (v, Some e)" by simp
    then have "decode T j z = (v, Some e)" by (simp add: Unmarshal_def)
    then have "e = UnmarshalTypeError" by (rule decode_error_kind(1))
    with r j u show ?thesis by blast
  qed
qed

lemma Assets_error_zero:
  assumes "outcome (Assets w) = Inr (v, Some e)"
  shows "v = zero (TSlice Asset)"
proof -
  from assms obtain res where r: "outcome (request w (indexes_at ''Assets'')) = Inr (res, Some e)"
    and y: "res = None \<longrightarrow> v = zero (TSlice Asset)"
    by (auto simp: Assets_def Let_def and_then_outcome split: sum.splits option.splits)
  from request_returns [OF r] y show ?thesis by auto
qed

lemma MarketPrice_error_zero:
  assumes "outcome (MarketPrice w exchange pair) = Inr (v, Some e)"
  shows "v = zero TFloat64"
  using assms
  by (auto simp: MarketPrice_def Let_def and_then_outcome
      split: sum.splits option.splits prod.splits if_splits)

lemma invoke_decoding:
  assumes "c \<noteq> EAssets" and "\<forall>exchange pair. c \<noteq> EMarketPrice exchange pair"
  shows "invoke w c = and_then (request w (base @ spec_path c))
           (\<lambda>(res, err). case res of
               Some b \<Rightarrow> Unmarshal b (return_type c) (zero (return_type c))
             | None \<Rightarrow> (zero (return_type c), err))"
  using assms by (cases c) (simp_all add: endpoint_defs Let_def urls cong: option.case_cong)

text \<open>
  Whatever error \<open>request\<close> reports, every endpoint hands it on together with the zero
  value of its return type.
\<close>

lemma endpoint_request_error:
  assumes "outcome (request w (base @ spec_path c)) = Inr (None, Some e)"
  shows "outcome (invoke w c) = Inr (zero (return_type c), Some e)"
  using assms
  by (cases c) (auto simp add: endpoint_defs Let_def urls and_then_outcome)

text \<open>A body that \<open>json.Unmarshal\<close> rejects is reported with its error, whatever the status.\<close>

lemma request_not_json:
  assumes "Get w url = Inr resp" and "Body resp = Inr (Rejected err)"
  shows "outcome (request w url) = Inr (None, Some err)"
  using assms by (simp add: request_def Unmarshal_interface_def)

text \<open>A body that is JSON but not an object makes the type assertion panic, whatever the status.\<close>

lemma request_not_object:
  assumes "Get w url = Inr resp" and "Body resp = Inr (JSON v)"
    and "\<forall>results. v \<noteq> JObject results"
  shows "outcome (request w url) = Inl InterfaceConversion"
  using assms by (cases v) (simp_all add: request_def Unmarshal_interface_def)

text \<open>So does an \<open>error\<close> field that is absent or not a string, for a status other than 200 and 429.\<close>

lemma request_error_not_string:
  assumes "Get w url = Inr resp" and "Body resp = Inr (JSON (JObject results))"
    and "StatusCode resp \<noteq> 200" and "StatusCode resp \<noteq> 429"
    and "\<forall>msg. index results ''error'' \<noteq> JString msg"
  shows "outcome (request w url) = Inl InterfaceConversion"
  using assms
  by (cases "index results ''error''") (simp_all add: request_def Unmarshal_interface_def)

text \<open>
  At no minute of the hour does the rate-limit message contain the decimal rendering of
  the minutes left: \<open>string(ttr)\<close> is a single character, and a digit only when \<open>ttr\<close>
  has two digits.
\<close>

lemma rate_limit_text_never_decimal:
  "\<forall>m \<in> set [0..59]. \<not> sublist (spec_decimal (60 - m))
      (''Too Many Requests. Allowance resets in '' @ string_of_rune (60 - m) @ '' minutes.'')"
  by code_simp

lemma rate_limit_message_never_decimal:
  assumes "0 \<le> Minute w" and "Minute w < 60"
    and "Get w url = Inr resp" and "StatusCode resp = 429"
    and "Body resp = Inr (JSON (JObject results))"
  shows "\<exists>message. outcome (request w url) = Inr (None, Some (ErrorString message))
     \<and> \<not> sublist (spec_decimal (60 - Minute w)) message"
proof -
  from assms(1,2) have "Minute w \<in> set [0..59]" by simp
  with rate_limit_text_never_decimal
  have "\<not> sublist (spec_decimal (60 - Minute w))
      (''Too Many Requests. Allowance resets in '' @ string_of_rune (60 - Minute w)
        @ '' minutes.'')"
    by blast
  then show ?thesis
    using assms(3-5) by (simp add: request_def Unmarshal_interface_def)
qed

text \<open>
  Integers through the round trip: small ones arrive as they are, \<open>2^62\<close> arrives as the
  integer its shortest literal denotes, and \<open>-2^63\<close>, whose literal is out of range, is a
  type error that leaves \<open>ID\<close> at zero beside the fields already decoded.
\<close>

lemma int_of_number_examples:
  "int_of_number 42 = Some 42"
  "int_of_number (- 7) = Some (- 7)"
  "int_of_number (3 / 2) = None"
  "int_of_number 9007199254740993 = Some 9007199254740993"
  "int_of_number 4611686018427387904 = Some 4611686018427388000"
  "int_of_number 9223372036854774784 = Some 9223372036854775000"
  "int_of_number 9223372036854775808 = None"
  "int_of_number (- 9223372036854775808) = None"
  by code_simp+

lemma AssetMarkets_id_out_of_range:
  "outcome (AssetMarkets (answering 200 (JSON (JObject [(''result'',
       JObject [(''id'', JNumber (- 9223372036854775808)), (''symbol'', JString ''btc'')])])) 0)
     ''btc'')
     = Inr (VStruct [(''id'', VInt 0), (''symbol'', VString ''btc''), (''name'', VString []),
              (''fiat'', VBool False),
              (''markets'', VStruct [(''base'', VNil), (''quote'', VNil)])],
            Some UnmarshalTypeError)"
  by code_simp

text \<open>The other endpoints do report a payload of the wrong shape; \<open>Pairs\<close> for one.\<close>

lemma Pairs_keeps_decode_error:
  "outcome (Pairs (answering 200 (JSON (JObject [(''result'', JObject [])])) 0))
     = Inr (VNil, Some UnmarshalTypeError)"
  by code_simp

subsection \<open>The response unwrapper\<close>

text \<open>
  C1 (does not hold of the code): a body that is valid JSON but not a JSON object
  should make \<open>request\<close> return a decode error. It does so only for a body that is not
  JSON at all. Answered with status 200 and the body \<open>[]\<close>, or with status 404 and the
  body \<open>null\<close>, the unchecked type assertion \<open>data.(map[string]interface{})\<close> panics: no
  error value reaches the caller.
\<close>

theorem request_array_body_panics:
  "outcome (request (answering 200 (JSON (JArray [])) 0) (base @ ''assets''))
     = Inl InterfaceConversion
   \<and> outcome (request (answering 404 (JSON JNull) 0) (base @ ''assets''))
     = Inl InterfaceConversion"
  by (intro conjI; code_simp)

text \<open>
  C2: a response whose status is neither 200 nor 429 and whose body is a JSON object
  with the field \<open>error\<close> bound to a string makes \<open>request\<close> return no bytes and an
  error whose message is exactly that string; so \<open>foo\<close> for \<open>{"error": "foo"}\<close>.
\<close>

theorem request_api_error:
  assumes "Get w url = Inr resp"
    and "StatusCode resp \<noteq> 200" and "StatusCode resp \<noteq> 429"
    and "Body resp = Inr (JSON (JObject results))"
    and "map_of results ''error'' = Some (JString msg)"
  shows "outcome (request w url) = Inr (None, Some (ErrorString msg))"
  using assms by (simp add: request_def Unmarshal_interface_def index_def)

theorem request_api_error_witness:
  "outcome (request (answering 404 (JSON (JObject [(''error'', JString ''foo'')])) 0)
      (base @ ''assets/nope''))
   = Inr (None, Some (ErrorString ''foo''))"
  by (rule request_api_error [where
        resp = "\<lparr>StatusCode = 404, Body = Inr (JSON (JObject [(''error'', JString ''foo'')]))\<rparr>"
        and results = "[(''error'', JString ''foo'')]"])
     (simp_all add: answering_def)

text \<open>
  C3: a response with status 429 whose body parses to a JSON object makes \<open>request\<close>
  return no bytes and the rate-limit error, whatever the object holds (an \<open>error\<close>
  field or none), and the message of that error is not empty.
\<close>

theorem request_rate_limited:
  assumes "Get w url = Inr resp" and "StatusCode resp = 429"
    and "Body resp = Inr (JSON (JObject results))"
  shows "outcome (request w url) =
           Inr (None, Some (ErrorString (''Too Many Requests. Allowance resets in ''
             @ string_of_rune (60 - Minute w) @ '' minutes.'')))
         \<and> ''Too Many Requests. Allowance resets in ''
             @ string_of_rune (60 - Minute w) @ '' minutes.'' \<noteq> []"
  using assms by (simp add: request_def Unmarshal_interface_def)

theorem request_rate_limited_witness:
  "outcome (request (answering 429 (JSON (JObject [(''error'', JString ''foo'')])) 15)
      (base @ ''assets'')) =
     Inr (None, Some (ErrorString (''Too Many Requests. Allowance resets in ''
       @ string_of_rune (60 - 15) @ '' minutes.'')))"
  using request_rate_limited [where
      w = "answering 429 (JSON (JObject [(''error'', JString ''foo'')])) 15"
      and url = "base @ ''assets''"
      and resp = "\<lparr>StatusCode = 429, Body = Inr (JSON (JObject [(''error'', JString ''foo'')]))\<rparr>"
      and results = "[(''error'', JString ''foo'')]"]
  by (simp add: answering_def)

text \<open>
  C4 (does not hold of the code): the rate-limit message should contain the decimal
  rendering of \<open>60 - minute\<close>. The code writes \<open>string(ttr)\<close>, which converts the integer
  to the character with that code point. At minute 15 the number is 45, its decimal
  rendering is \<open>45\<close>, and the message reads \<open>... resets in - minutes.\<close>: it contains
  the character \<open>-\<close> (code point 45) and nowhere the digits \<open>45\<close>.
\<close>

theorem request_rate_limit_message_is_rune:
  "outcome (request (answering 429 (JSON (JObject [])) 15) (base @ ''assets'')) =
     Inr (None, Some (ErrorString ''Too Many Requests. Allowance resets in - minutes.''))
   \<and> spec_decimal (60 - Minute (answering 429 (JSON (JObject [])) 15)) = ''45''
   \<and> \<not> sublist ''45'' ''Too Many Requests. Allowance resets in - minutes.''"
proof (intro conjI)
  show "outcome (request (answering 429 (JSON (JObject [])) 15) (base @ ''assets'')) =
     Inr (None, Some (ErrorString ''Too Many Requests. Allowance resets in - minutes.''))"
    by code_simp
  show "spec_decimal (60 - Minute (answering 429 (JSON (JObject [])) 15)) = ''45''"
    by code_simp
  show "\<not> sublist ''45'' ''Too Many Requests. Allowance resets in - minutes.''"
    by (simp add: sublist_Cons_right)
qed

text \<open>
  C5 (does not hold of the code): with a status other than 200 and 429 and a JSON
  object whose \<open>error\<close> field is absent or not a string, the caller should still get an
  error value. Answered with status 404 and \<open>{}\<close>, or with status 500 and
  \<open>{"error": 5}\<close>, the unchecked type assertion \<open>results["error"].(string)\<close> panics.
\<close>

theorem request_missing_error_field_panics:
  "outcome (request (answering 404 (JSON (JObject [])) 0) (base @ ''assets/nope''))
     = Inl InterfaceConversion
   \<and> outcome (request (answering 500 (JSON (JObject [(''error'', JNumber 5)])) 0)
       (base @ ''assets/nope'')) = Inl InterfaceConversion"
  by (intro conjI; code_simp)

subsection \<open>The endpoint functions\<close>

text \<open>
  C6 (does not hold of the code): a 200 response whose result payload does not have
  the declared shape should surface a decode error. \<open>Assets\<close> calls \<open>json.Unmarshal\<close>
  and drops what it returns (every other endpoint assigns it to \<open>err\<close>): answered with
  \<open>{"result": {}}\<close>, an object where an array is declared, the decoder reports a type
  error and \<open>Assets\<close> returns the \<open>nil\<close> slice with a \<open>nil\<close> error.
\<close>

theorem Assets_drops_decode_error:
  "outcome (Assets (answering 200 (JSON (JObject [(''result'', JObject [])])) 0))
     = Inr (VNil, None)
   \<and> Unmarshal (JSON (JObject [])) (TSlice Asset) (zero (TSlice Asset))
     = (VNil, Some UnmarshalTypeError)"
  by (intro conjI; code_simp)

text \<open>
  C7, as stated, fails: \<open>AssetMarkets\<close>, answered with
  \<open>{"result": {"name": 5, "symbol": "btc"}}\<close>, returns the type error for \<open>name\<close>
  together with a struct whose \<open>Symbol\<close> is already \<open>btc\<close>.
\<close>

theorem AssetMarkets_partial_result:
  "outcome (AssetMarkets (answering 200 (JSON (JObject [(''result'',
       JObject [(''name'', JNumber 5), (''symbol'', JString ''btc'')])])) 0) ''btc'')
     = Inr (VStruct [(''id'', VInt 0), (''symbol'', VString ''btc''), (''name'', VString []),
              (''fiat'', VBool False),
              (''markets'', VStruct [(''base'', VNil), (''quote'', VNil)])],
            Some UnmarshalTypeError)
   \<and> VStruct [(''id'', VInt 0), (''symbol'', VString ''btc''), (''name'', VString []),
              (''fiat'', VBool False),
              (''markets'', VStruct [(''base'', VNil), (''quote'', VNil)])]
     \<noteq> zero DetailedAsset"
  by (intro conjI; code_simp)

text \<open>
  C7, amended: for every endpoint function and every input, (a) whenever \<open>request\<close>
  reports an error, the function returns that error together with the zero value of
  its return type; and (b) whenever the function returns a non-nil error together with
  a result that is not the zero value of its return type, \<open>request\<close> itself has
  succeeded, and the result and the error are exactly what \<open>json.Unmarshal\<close> gave for
  decoding the payload \<open>request\<close> returned into the declared type, starting from the
  zero value: the error is its type error and the result is what it had decoded.
  \<open>MarketPrice\<close> never returns such a pair.
\<close>

theorem endpoint_error_with_result:
  "(outcome (request w (base @ spec_path c)) = Inr (None, Some e)
      \<longrightarrow> outcome (invoke w c) = Inr (zero (return_type c), Some e))
   \<and> (outcome (invoke w c) = Inr (v, Some e') \<and> v \<noteq> zero (return_type c)
      \<longrightarrow> (\<exists>j. outcome (request w (base @ spec_path c)) = Inr (Some (JSON j), None)
              \<and> Unmarshal (JSON j) (return_type c) (zero (return_type c)) = (v, Some e'))
          \<and> e' = UnmarshalTypeError
          \<and> (\<forall>exchange pair. c \<noteq> EMarketPrice exchange pair))"
proof (rule conjI)
  show "outcome (request w (base @ spec_path c)) = Inr (None, Some e)
      \<longrightarrow> outcome (invoke w c) = Inr (zero (return_type c), Some e)"
    using endpoint_request_error by blast
next
  show "outcome (invoke w c) = Inr (v, Some e') \<and> v \<noteq> zero (return_type c)
      \<longrightarrow> (\<exists>j. outcome (request w (base @ spec_path c)) = Inr (Some (JSON j), None)
              \<and> Unmarshal (JSON j) (return_type c) (zero (return_type c)) = (v, Some e'))
          \<and> e' = UnmarshalTypeError
          \<and> (\<forall>exchange pair. c \<noteq> EMarketPrice exchange pair)"
  proof (rule impI)
    assume h: "outcome (invoke w c) = Inr (v, Some e') \<and> v \<noteq> zero (return_type c)"
    have a: "c \<noteq> EAssets"
      using h Assets_error_zero by auto
    have p: "\<forall>exchange pair. c \<noteq> EMarketPrice exchange pair"
      using h MarketPrice_error_zero by auto
    from h have d: "outcome (and_then (request w (base @ spec_path c))
        (\<lambda>(res, err). case res of
            Some b \<Rightarrow> Unmarshal b (return_type c) (zero (return_type c))
          | None \<Rightarrow> (zero (return_type c), err))) = Inr (v, Some e')"
      by (simp only: invoke_decoding [OF a p])
    from h have n: "v \<noteq> zero (return_type c)" by simp
    from fetch_into_error [OF d n] p
    show "(\<exists>j. outcome (request w (base @ spec_path c)) = Inr (Some (JSON j), None)
              \<and> Unmarshal (JSON j) (return_type c) (zero (return_type c)) = (v, Some e'))
          \<and> e' = UnmarshalTypeError
          \<and> (\<forall>exchange pair. c \<noteq> EMarketPrice exchange pair)"
      by blast
  qed
qed

theorem endpoint_error_with_result_witness:
  "outcome (invoke (answering 404 (JSON (JObject [(''error'', JString ''not found'')])) 0)
      (EAssetMarkets ''nope''))
     = Inr (zero (return_type (EAssetMarkets ''nope'')), Some (ErrorString ''not found''))
   \<and> (\<exists>j. outcome (request (answering 200 (JSON (JObject [(''result'',
          JArray [JArray [JNumber 1, JNumber 2], JString ''x''])])) 0)
        (base @ spec_path (ETrades ''gdax'' ''ethbtc''))) = Inr (Some (JSON j), None)
      \<and> Unmarshal (JSON j) (return_type (ETrades ''gdax'' ''ethbtc''))
          (zero (return_type (ETrades ''gdax'' ''ethbtc'')))
        = (VSlice [VSlice [VFloat64 1, VFloat64 2], VNil], Some UnmarshalTypeError))"
proof -
  have a: "outcome (request (answering 404 (JSON (JObject [(''error'', JString ''not found'')])) 0)
      (base @ spec_path (EAssetMarkets ''nope''))) = Inr (None, Some (ErrorString ''not found''))"
    by code_simp
  have b1: "outcome (invoke (answering 200 (JSON (JObject [(''result'',
        JArray [JArray [JNumber 1, JNumber 2], JString ''x''])])) 0) (ETrades ''gdax'' ''ethbtc''))
      = Inr (VSlice [VSlice [VFloat64 1, VFloat64 2], VNil], Some UnmarshalTypeError)"
    by code_simp
  have b2: "VSlice [VSlice [VFloat64 1, VFloat64 2], VNil]
      \<noteq> zero (return_type (ETrades ''gdax'' ''ethbtc''))"
    by code_simp
  from a endpoint_error_with_result
    [where w = "answering 404 (JSON (JObject [(''error'', JString ''not found'')])) 0"
      and c = "EAssetMarkets ''nope''" and e = "ErrorString ''not found''"]
  have 1: "outcome (invoke (answering 404 (JSON (JObject [(''error'', JString ''not found'')])) 0)
      (EAssetMarkets ''nope''))
     = Inr (zero (return_type (EAssetMarkets ''nope'')), Some (ErrorString ''not found''))"
    by blast
  from b1 b2 endpoint_error_with_result
    [where w = "answering 200 (JSON (JObject [(''result'',
          JArray [JArray [JNumber 1, JNumber 2], JString ''x''])])) 0"
      and c = "ETrades ''gdax'' ''ethbtc''"
      and v = "VSlice [VSlice [VFloat64 1, VFloat64 2], VNil]" and e' = UnmarshalTypeError]
  have 2: "\<exists>j. outcome (request (answering 200 (JSON (JObject [(''result'',
          JArray [JArray [JNumber 1, JNumber 2], JString ''x''])])) 0)
        (base @ spec_path (ETrades ''gdax'' ''ethbtc''))) = Inr (Some (JSON j), None)
      \<and> Unmarshal (JSON j) (return_type (ETrades ''gdax'' ''ethbtc''))
          (zero (return_type (ETrades ''gdax'' ''ethbtc'')))
        = (VSlice [VSlice [VFloat64 1, VFloat64 2], VNil], Some UnmarshalTypeError)"
    by blast
  from 1 2 show ?thesis by (rule conjI)
qed

text \<open>
  C8: \<open>AssetMarkets("btc")\<close> issues its GET to exactly the base URL followed by
  \<open>assets/btc\<close>, \<open>Market("gdax", "ethbtc")\<close> to the base URL followed by
  \<open>markets/gdax/ethbtc\<close>, and every endpoint function issues exactly one GET, to the
  base URL followed by its path template with the arguments substituted in order.
\<close>

theorem endpoint_urls:
  "gets (AssetMarkets w ''btc'') = [base @ ''assets/btc'']
   \<and> gets (Market w ''gdax'' ''ethbtc'') = [base @ ''markets/gdax/ethbtc'']
   \<and> gets (invoke w c) = [base @ spec_path c]"
  using invoke_gets [of w "EAssetMarkets ''btc''"] invoke_gets [of w "EMarket ''gdax'' ''ethbtc''"]
    invoke_gets [of w c]
  by simp

text \<open>
  C9: when the GET that \<open>MarketPrice("gdax", "ethbtc")\<close> issues is answered with status
  200 and the body \<open>{"result": {"price": 6321.5}}\<close>, the function returns 6321.5 and a
  \<open>nil\<close> error.
\<close>

theorem MarketPrice_example:
  assumes "Get w (base @ ''markets/gdax/ethbtc/price'') =
     Inr \<lparr>StatusCode = 200,
          Body = Inr (JSON (JObject [(''result'', JObject [(''price'', JNumber 6321.5)])]))\<rparr>"
  shows "outcome (MarketPrice w ''gdax'' ''ethbtc'') = Inr (VFloat64 6321.5, None)"
  using assms
  by (simp add: MarketPrice_def Let_def url_MarketPrice and_then_outcome request_def
      Unmarshal_interface_def index_def Marshal_def Unmarshal_def first_error_def map_index_def)

theorem MarketPrice_example_witness:
  "outcome (MarketPrice (answering 200
      (JSON (JObject [(''result'', JObject [(''price'', JNumber 6321.5)])])) 0) ''gdax'' ''ethbtc'')
   = Inr (VFloat64 6321.5, None)"
  by (rule MarketPrice_example) (simp add: answering_def)

text \<open>
  C10: when the GET that \<open>MarketPrice\<close> issues is answered with status 200 and an
  envelope whose result is a JSON object of numeric fields without the key \<open>price\<close>
  (the empty object, for one), the function returns 0 and a \<open>nil\<close> error: exactly what
  it returns for a market whose price is 0.
\<close>

theorem MarketPrice_missing_price:
  assumes "Get w (base @ ''markets/'' @ exchange @ ''/'' @ pair @ ''/price'') = Inr resp"
    and "StatusCode resp = 200"
    and "Body resp = Inr (JSON (JObject results))"
    and "index results ''result'' = JObject payload"
    and "\<forall>kv \<in> set payload. \<exists>x. snd kv = JNumber x"
    and "''price'' \<notin> fst ` set payload"
  shows "outcome (MarketPrice w exchange pair) = Inr (VFloat64 0, None)
    \<and> outcome (MarketPrice w exchange pair) =
        outcome (MarketPrice (answering 200
          (JSON (JObject [(''result'', JObject [(''price'', JNumber 0)])])) (Minute w))
          exchange pair)"
proof -
  from decode_entries_numbers [OF assms(5), of "[]"] assms(6)
  obtain m where m: "decode_entries TFloat64 payload [] = (m, None)"
    and p: "map_of m ''price'' = None"
    by auto
  have r: "outcome (request w (base @ ''markets/'' @ exchange @ ''/'' @ pair @ ''/price''))
      = Inr (Some (JSON (JObject payload)), None)"
    using assms(1-4) by (simp add: request_def Unmarshal_interface_def Marshal_def)
  have 1: "outcome (MarketPrice w exchange pair) = Inr (VFloat64 0, None)"
    using r m p
    by (simp add: MarketPrice_def Let_def url_MarketPrice and_then_outcome Unmarshal_def
        map_index_def)
  have 2: "outcome (MarketPrice (answering 200
          (JSON (JObject [(''result'', JObject [(''price'', JNumber 0)])])) (Minute w))
          exchange pair)
       = Inr (VFloat64 0, None)"
    by (simp add: MarketPrice_def Let_def url_MarketPrice and_then_outcome request_def
        answering_def Unmarshal_interface_def index_def Marshal_def Unmarshal_def
        first_error_def map_index_def)
  from 1 2 show ?thesis by simp
qed

theorem MarketPrice_missing_price_witness:
  "outcome (MarketPrice (answering 200
      (JSON (JObject [(''result'', JObject [(''volume'', JNumber 3)])])) 0) ''gdax'' ''ethbtc'')
     = Inr (VFloat64 0, None)
   \<and> outcome (MarketPrice (answering 200
      (JSON (JObject [(''result'', JObject [(''volume'', JNumber 3)])])) 0) ''gdax'' ''ethbtc'')
     = outcome (MarketPrice (answering 200
          (JSON (JObject [(''result'', JObject [(''price'', JNumber 0)])]))
          (Minute (answering 200
             (JSON (JObject [(''result'', JObject [(''volume'', JNumber 3)])])) 0)))
        ''gdax'' ''ethbtc'')"
  by (rule MarketPrice_missing_price [where
        resp = "\<lparr>StatusCode = 200,
          Body = Inr (JSON (JObject [(''result'', JObject [(''volume'', JNumber 3)])]))\<rparr>"
        and results = "[(''result'', JObject [(''volume'', JNumber 3)])]"
        and payload = "[(''volume'', JNumber 3)]"])
     (simp_all add: answering_def index_def)

end
